theory Spec2Isabelle
  imports Complex_Main "HOL-Library.Multiset" "HOL-Library.Product_Lexorder"
begin

section \<open>The screening and scoring engine of \<open>stock.py\<close>\<close>

text \<open>
  The development embeds \<open>screen_stocks_for_opportunities\<close> and the helper
  \<open>get_historical_earnings_from_api\<close> of \<open>src/stock.py\<close>.

  Numbers. A finite double is modelled by the rational it stands for, and the arithmetic
  on finite values is exact. The closes of a price series are \<open>numpy.float64\<close> values, for
  which a division by zero raises nothing: it yields \<open>inf\<close>, \<open>-inf\<close> or \<open>nan\<close>, and the
  code goes on computing with them. So a computed number is an \<open>fnum\<close>: a rational, one of
  the two infinities, or \<open>nan\<close>, with the arithmetic and the comparisons of IEEE 754 on
  them. A close of 0 is the positive zero. Two things that the rationals do not fix are
  parameters, collected in a \<open>runtime\<close>: the way \<open>round(x, 2)\<close> falls when the exact value
  lies halfway between two hundredths (the double that the code holds lies just beside
  it), and the order that the sort gives a list in which a key is \<open>nan\<close>.
\<close>

subsection \<open>Data\<close>

type_synonym date = int
  \<comment> \<open>a \<open>datetime\<close> at midnight, counted in days; \<open>timedelta(days=n)\<close> is \<open>n\<close>\<close>

datatype fnum = Fin rat | PosInf | NegInf | NaN

type_synonym point = "date \<times> rat"
  \<comment> \<open>one row of a price history: its date and its \<open>Close\<close>\<close>

type_synonym series = "point list"

record candidate =
  symbol :: string
  reportDate :: string

record info =
  shortName :: "string option"
  marketCap :: "int option"
  targetMeanPrice :: "rat option"
  currentPrice :: "rat option"

datatype error =
    FetchError   \<comment> \<open>any exception raised by a data provider\<close>
  | IndexError   \<comment> \<open>\<open>.iloc\<close> on an empty series\<close>

text \<open>
  The data providers (\<open>yfinance_cache\<close> and the Alpha Vantage endpoint) are parameters.
  \<open>ticker_info t\<close> is \<open>yf.Ticker(t).info\<close>, \<open>history_range t s e\<close> is
  \<open>yf.Ticker(t).history(start=s, end=e)\<close>, \<open>history_30d t\<close> is
  \<open>yf.Ticker(t).history(period="30d")\<close>, and \<open>earnings_api t\<close> is the list of the
  \<open>reportedDate\<close>s of \<open>quarterlyEarnings\<close> in the answer of the earnings endpoint
  (\<open>Inr []\<close> when the key is missing or empty, \<open>Inl\<close> when the request, the JSON decoding or
  the parsing of one of the first 8 dates raises).
\<close>

record env =
  ticker_info :: "string \<Rightarrow> error + info"
  earnings_api :: "string \<Rightarrow> error + date list"
  history_range :: "string \<Rightarrow> date \<Rightarrow> date \<Rightarrow> error + series"
  history_30d :: "string \<Rightarrow> error + series"

datatype field =
    MoveScore | AvgMove | AnalystUpside | StockRunup | WinRate | AvgPreEarningsRunup

text \<open>
  \<open>tie_rounds_up t fld\<close> tells, for the field \<open>fld\<close> of the record of the ticker \<open>t\<close>,
  whether \<open>round(x, 2)\<close> goes up when the exact value of \<open>x\<close> is halfway between two
  hundredths. \<open>nan_sort keys\<close> is the rearrangement that the sort makes of a list whose
  keys are \<open>keys\<close>, one of them \<open>nan\<close>: Python then promises only some permutation of the
  list, given here by the exchanges of positions that produce it.
\<close>

record runtime =
  tie_rounds_up :: "string \<Rightarrow> field \<Rightarrow> bool"
  nan_sort :: "fnum list \<Rightarrow> (nat \<times> nat) list"

record result =
  ticker :: string
  company_name :: string
  earnings_date :: string
  move_score :: fnum
  avg_move :: fnum
  analyst_upside :: fnum
  stock_runup :: fnum
  win_rate :: fnum
  avg_pre_earnings_runup :: fnum

text \<open>The local variables of one loop iteration, before rounding.\<close>

record features =
  f_avg_abs_move :: fnum
  f_win_rate :: fnum
  f_avg_pre_earnings_runup :: fnum
  f_analyst_upside :: fnum
  f_current_runup :: fnum
  f_relative_runup :: fnum
  f_move_score :: fnum

datatype gate =
    SymbolPattern | CompanyName | MarketCap | TargetPrice
  | EarningsDates | PostMoves | CurrentPrice | PriceSeries30

datatype 'a attempt =
    Rejected gate   \<comment> \<open>a \<open>continue\<close> of the loop body\<close>
  | Raised error    \<comment> \<open>an exception inside the \<open>try\<close>\<close>
  | Passed 'a

datatype outcome =
    Skipped gate
  | Failed error
  | Appended result

subsection \<open>Arithmetic\<close>

definition fdiv :: "rat \<Rightarrow> rat \<Rightarrow> fnum" where
  \<comment> \<open>the quotient of two finite doubles\<close>
  "fdiv a b =
     (if b \<noteq> 0 then Fin (a / b)
      else if 0 < a then PosInf else if a < 0 then NegInf else NaN)"

fun fscale :: "fnum \<Rightarrow> rat \<Rightarrow> fnum" where
  \<comment> \<open>the product with a finite constant\<close>
  "fscale (Fin q) c = Fin (q * c)"
| "fscale PosInf c = (if 0 < c then PosInf else if c < 0 then NegInf else NaN)"
| "fscale NegInf c = (if 0 < c then NegInf else if c < 0 then PosInf else NaN)"
| "fscale NaN c = NaN"

definition pct_change :: "rat \<Rightarrow> rat \<Rightarrow> fnum" where
  \<comment> \<open>\<open>((end - start) / start) * 100\<close>\<close>
  "pct_change start end = fscale (fdiv (end - start) start) 100"

fun fneg :: "fnum \<Rightarrow> fnum" where
  "fneg (Fin q) = Fin (- q)"
| "fneg PosInf = NegInf"
| "fneg NegInf = PosInf"
| "fneg NaN = NaN"

fun fadd :: "fnum \<Rightarrow> fnum \<Rightarrow> fnum" where
  "fadd (Fin a) (Fin b) = Fin (a + b)"
| "fadd NaN y = NaN"
| "fadd x NaN = NaN"
| "fadd PosInf NegInf = NaN"
| "fadd NegInf PosInf = NaN"
| "fadd PosInf y = PosInf"
| "fadd x PosInf = PosInf"
| "fadd NegInf y = NegInf"
| "fadd x NegInf = NegInf"

definition fsub :: "fnum \<Rightarrow> fnum \<Rightarrow> fnum" where
  "fsub x y = fadd x (fneg y)"

fun fabs :: "fnum \<Rightarrow> fnum" where
  "fabs (Fin q) = Fin \<bar>q\<bar>"
| "fabs PosInf = PosInf"
| "fabs NegInf = PosInf"
| "fabs NaN = NaN"

fun fdiv_count :: "fnum \<Rightarrow> nat \<Rightarrow> fnum" where
  \<comment> \<open>the quotient by the length of a list, reached with a non-empty list only\<close>
  "fdiv_count (Fin q) n = Fin (q / of_nat n)"
| "fdiv_count x n = x"

definition fsum :: "fnum list \<Rightarrow> fnum" where
  \<comment> \<open>\<open>sum(xs)\<close>: from 0, adding from the left\<close>
  "fsum xs = foldl fadd (Fin 0) xs"

fun fpos :: "fnum \<Rightarrow> bool" where
  \<comment> \<open>\<open>m > 0\<close>\<close>
  "fpos (Fin q) = (0 < q)"
| "fpos PosInf = True"
| "fpos NegInf = False"
| "fpos NaN = False"

fun fge :: "fnum \<Rightarrow> fnum \<Rightarrow> bool" where
  \<comment> \<open>\<open>x >= y\<close>: false as soon as one side is \<open>nan\<close>\<close>
  "fge NaN y = False"
| "fge x NaN = False"
| "fge (Fin a) (Fin b) = (b \<le> a)"
| "fge PosInf y = True"
| "fge x NegInf = True"
| "fge x PosInf = False"
| "fge NegInf y = False"

definition round2 :: "bool \<Rightarrow> rat \<Rightarrow> rat" where
  \<comment> \<open>\<open>round(x, 2)\<close> of a finite value: the nearest hundredth; \<open>up\<close> decides when the exact
      value is halfway\<close>
  "round2 up x =
     (let f = \<lfloor>x * 100\<rfloor>; r = x * 100 - of_int f
      in if r < 1 / 2 then of_int f / 100
         else if 1 / 2 < r then of_int (f + 1) / 100
         else if up then of_int (f + 1) / 100 else of_int f / 100)"

fun fround :: "bool \<Rightarrow> fnum \<Rightarrow> fnum" where
  \<comment> \<open>\<open>round(x, 2)\<close>: the infinities and \<open>nan\<close> round to themselves\<close>
  "fround up (Fin q) = Fin (round2 up q)"
| "fround up x = x"

subsection \<open>The features\<close>

definition avg_abs_move :: "fnum list \<Rightarrow> fnum" where
  \<comment> \<open>\<open>sum(abs(m) for m in post_moves) / len(post_moves)\<close>, reached with a non-empty list\<close>
  "avg_abs_move post_moves = fdiv_count (fsum (map fabs post_moves)) (length post_moves)"

definition win_rate_pct :: "fnum list \<Rightarrow> fnum" where
  \<comment> \<open>\<open>(sum(1 for m in post_moves if m > 0) / len(post_moves)) * 100\<close>, a quotient of two
      Python integers, reached with a non-empty list\<close>
  "win_rate_pct post_moves =
     Fin (of_nat (length (filter fpos post_moves)) / of_nat (length post_moves) * 100)"

definition avg_pre_runup :: "fnum list \<Rightarrow> fnum" where
  \<comment> \<open>\<open>sum(pre_runups) / len(pre_runups) if pre_runups else 0\<close>\<close>
  "avg_pre_runup pre_runups =
     (if pre_runups = [] then Fin 0
      else fdiv_count (fsum pre_runups) (length pre_runups))"

definition composite_score :: "fnum \<Rightarrow> fnum \<Rightarrow> fnum \<Rightarrow> fnum" where
  \<comment> \<open>\<open>(avg_abs_move * 0.5) + (analyst_upside * 0.3) + (relative_runup * 0.2)\<close>\<close>
  "composite_score avg upside rel =
     fadd (fadd (fscale avg (1 / 2)) (fscale upside (3 / 10))) (fscale rel (1 / 5))"

subsection \<open>The symbol pattern\<close>

definition upper_letter :: "char \<Rightarrow> bool" where
  "upper_letter c = (65 \<le> (of_char c :: nat) \<and> (of_char c :: nat) \<le> 90)"

definition symbol_matches :: "string \<Rightarrow> bool" where
  \<comment> \<open>\<open>re.match(r'^[A-Z]{1,5}$', ticker)\<close>: in Python \<open>$\<close> matches at the end of the string
      and also just before a newline that ends the string\<close>
  "symbol_matches s =
     (let core = (if s \<noteq> [] \<and> last s = CHR 0x0A then butlast s else s)
      in 1 \<le> length core \<and> length core \<le> 5 \<and> list_all upper_letter core)"

subsection \<open>Historical earnings dates\<close>

definition get_historical_earnings_from_api :: "env \<Rightarrow> string \<Rightarrow> date list" where
  \<comment> \<open>the first 8 report dates; \<open>[]\<close> on any exception\<close>
  "get_historical_earnings_from_api e t =
     (case earnings_api e t of Inl _ \<Rightarrow> [] | Inr ds \<Rightarrow> take 8 ds)"

subsection \<open>The loop over the earnings dates\<close>

fun collect_moves ::
  "env \<Rightarrow> string \<Rightarrow> date list \<Rightarrow> fnum list \<Rightarrow> fnum list \<Rightarrow> error + (fnum list \<times> fnum list)"
where
  "collect_moves e t [] post_moves pre_runups = Inr (post_moves, pre_runups)"
| "collect_moves e t (d # ds) post_moves pre_runups =
     (case history_range e t (d - 1) (d + 2) of
        Inl err \<Rightarrow> Inl err
      | Inr hist_post \<Rightarrow>
          let post_moves' =
                (if 2 \<le> length hist_post
                 then post_moves @ [pct_change (snd (hist_post ! 0)) (snd (hist_post ! 1))]
                 else post_moves)
          in (case history_range e t (d - 30) d of
                Inl err \<Rightarrow> Inl err
              | Inr hist_pre \<Rightarrow>
                  let pre_runups' =
                        (if hist_pre \<noteq> []
                         then pre_runups @ [pct_change (snd (hd hist_pre)) (snd (last hist_pre))]
                         else pre_runups)
                  in collect_moves e t ds post_moves' pre_runups'))"

subsection \<open>One iteration of the screening loop\<close>

definition analyze :: "env \<Rightarrow> fnum \<Rightarrow> candidate \<Rightarrow> (string \<times> features) attempt" where
  "analyze e spy_runup c =
     (let t = symbol c in
      if \<not> symbol_matches t then Rejected SymbolPattern
      else case ticker_info e t of
        Inl err \<Rightarrow> Raised err
      | Inr fi \<Rightarrow>
      (case shortName fi of
        None \<Rightarrow> Rejected CompanyName
      | Some name \<Rightarrow>
      if name = [] then Rejected CompanyName
      else case marketCap fi of
        None \<Rightarrow> Rejected MarketCap
      | Some cap \<Rightarrow>
      if cap = 0 \<or> cap < 10000000000 then Rejected MarketCap
      else case targetMeanPrice fi of
        None \<Rightarrow> Rejected TargetPrice
      | Some target_price \<Rightarrow>
      if target_price = 0 then Rejected TargetPrice
      else let earnings_dates = get_historical_earnings_from_api e t in
      if earnings_dates = [] then Rejected EarningsDates
      else case collect_moves e t earnings_dates [] [] of
        Inl err \<Rightarrow> Raised err
      | Inr (post_moves, pre_runups) \<Rightarrow>
      if post_moves = [] then Rejected PostMoves
      else case currentPrice fi of
        None \<Rightarrow> Rejected CurrentPrice
      | Some current_price \<Rightarrow>
      if current_price = 0 then Rejected CurrentPrice
      else let upside = pct_change current_price target_price in
      case history_30d e t of
        Inl err \<Rightarrow> Raised err
      | Inr stock_hist \<Rightarrow>
      if stock_hist = [] then Rejected PriceSeries30
      else let current_runup = pct_change (snd (hd stock_hist)) (snd (last stock_hist));
               relative_runup = fabs (fsub current_runup spy_runup)
      in Passed (name,
           \<lparr> f_avg_abs_move = avg_abs_move post_moves,
             f_win_rate = win_rate_pct post_moves,
             f_avg_pre_earnings_runup = avg_pre_runup pre_runups,
             f_analyst_upside = upside,
             f_current_runup = current_runup,
             f_relative_runup = relative_runup,
             f_move_score = composite_score (avg_abs_move post_moves) upside relative_runup \<rparr>)))"

definition build_result :: "runtime \<Rightarrow> candidate \<Rightarrow> string \<Rightarrow> features \<Rightarrow> result" where
  \<comment> \<open>the dictionary appended to \<open>screened_stocks\<close>\<close>
  "build_result rt c name f =
     \<lparr> ticker = symbol c, company_name = name, earnings_date = reportDate c,
       move_score = fround (tie_rounds_up rt (symbol c) MoveScore) (f_move_score f),
       avg_move = fround (tie_rounds_up rt (symbol c) AvgMove) (f_avg_abs_move f),
       analyst_upside = fround (tie_rounds_up rt (symbol c) AnalystUpside) (f_analyst_upside f),
       stock_runup = fround (tie_rounds_up rt (symbol c) StockRunup) (f_current_runup f),
       win_rate = fround (tie_rounds_up rt (symbol c) WinRate) (f_win_rate f),
       avg_pre_earnings_runup =
         fround (tie_rounds_up rt (symbol c) AvgPreEarningsRunup) (f_avg_pre_earnings_runup f) \<rparr>"

definition screen_ticker :: "runtime \<Rightarrow> env \<Rightarrow> fnum \<Rightarrow> candidate \<Rightarrow> outcome" where
  "screen_ticker rt e spy_runup c =
     (case analyze e spy_runup c of
        Rejected g \<Rightarrow> Skipped g
      | Raised err \<Rightarrow> Failed err
      | Passed (name, f) \<Rightarrow> Appended (build_result rt c name f))"

subsection \<open>The batch\<close>

definition benchmark_runup :: "env \<Rightarrow> error + fnum" where
  \<comment> \<open>lines 166 to 168, outside the \<open>try\<close>\<close>
  "benchmark_runup e =
     (case history_30d e ''SPY'' of
        Inl err \<Rightarrow> Inl err
      | Inr spy_hist \<Rightarrow>
          if spy_hist = [] then Inl IndexError
          else Inr (pct_change (snd (hd spy_hist)) (snd (last spy_hist))))"

fun screen_loop :: "runtime \<Rightarrow> env \<Rightarrow> fnum \<Rightarrow> candidate list \<Rightarrow> result list \<Rightarrow> result list" where
  "screen_loop rt e spy_runup [] screened_stocks = screened_stocks"
| "screen_loop rt e spy_runup (c # cs) screened_stocks =
     (case screen_ticker rt e spy_runup c of
        Skipped g \<Rightarrow> screen_loop rt e spy_runup cs screened_stocks
      | Failed err \<Rightarrow> screen_loop rt e spy_runup cs screened_stocks
      | Appended r \<Rightarrow> screen_loop rt e spy_runup cs (screened_stocks @ [r]))"

fun desc_rank :: "fnum \<Rightarrow> nat \<times> rat" where
  \<comment> \<open>the place of a key in the descending order: the greater the key, the smaller the
      rank (pairs are compared first component first)\<close>
  "desc_rank PosInf = (0, 0)"
| "desc_rank (Fin q) = (1, - q)"
| "desc_rank NegInf = (2, 0)"
| "desc_rank NaN = (3, 0)"

definition swap_at :: "nat \<times> nat \<Rightarrow> 'a list \<Rightarrow> 'a list" where
  "swap_at p xs =
     (if fst p < length xs \<and> snd p < length xs
      then xs[fst p := xs ! snd p, snd p := xs ! fst p] else xs)"

definition rearrange :: "(nat \<times> nat) list \<Rightarrow> 'a list \<Rightarrow> 'a list" where
  "rearrange swaps xs = foldl (\<lambda>ys p. swap_at p ys) xs swaps"

definition sorted_by_score_desc :: "runtime \<Rightarrow> result list \<Rightarrow> result list" where
  \<comment> \<open>\<open>sorted(screened_stocks, key=lambda x: x['move_score'], reverse=True)\<close>. Python's
      sort is stable and \<open>reverse=True\<close> keeps the order of equal keys, which fixes the
      result when the keys can be compared; with a \<open>nan\<close> key the result is some
      permutation of the list\<close>
  "sorted_by_score_desc rt xs =
     (if NaN \<in> set (map move_score xs) then rearrange (nan_sort rt (map move_score xs)) xs
      else sort_key (\<lambda>r. desc_rank (move_score r)) xs)"

definition screen_stocks_for_opportunities ::
  "runtime \<Rightarrow> env \<Rightarrow> candidate list \<Rightarrow> error + result list"
where
  "screen_stocks_for_opportunities rt e tickers =
     (case benchmark_runup e of
        Inl err \<Rightarrow> Inl err
      | Inr spy_runup \<Rightarrow>
          Inr (sorted_by_score_desc rt (screen_loop rt e spy_runup tickers [])))"

subsection \<open>Notions used to state the properties\<close>

definition appended_result :: "runtime \<Rightarrow> env \<Rightarrow> fnum \<Rightarrow> candidate \<Rightarrow> result option" where
  \<comment> \<open>the record one iteration appends, if it appends one\<close>
  "appended_result rt e spy_runup c =
     (case screen_ticker rt e spy_runup c of Appended r \<Rightarrow> Some r | _ \<Rightarrow> None)"

definition accepted :: "outcome \<Rightarrow> bool" where
  \<comment> \<open>the ticker passed every gate: a record was appended\<close>
  "accepted oc = (case oc of Appended _ \<Rightarrow> True | _ \<Rightarrow> False)"

definition descending :: "result list \<Rightarrow> bool" where
  \<comment> \<open>sorted by \<open>move_score\<close>, highest first\<close>
  "descending xs = sorted_wrt (\<lambda>a b. fge (move_score a) (move_score b)) xs"

definition mean_of_abs :: "fnum list \<Rightarrow> fnum" where
  \<comment> \<open>the specification's words: the mean of the absolute values of a non-empty list;
      it is \<open>nan\<close> when a value is \<open>nan\<close>, and infinite when a value is infinite\<close>
  "mean_of_abs ms =
     (if NaN \<in> set ms then NaN
      else if PosInf \<in> set ms \<or> NegInf \<in> set ms then PosInf
      else Fin (sum_list (map (\<lambda>m. case m of Fin q \<Rightarrow> \<bar>q\<bar> | _ \<Rightarrow> 0) ms) / of_nat (length ms)))"

definition spec_symbol_ok :: "string \<Rightarrow> bool" where
  \<comment> \<open>the specification's first gate, in its words: 1 to 5 uppercase letters\<close>
  "spec_symbol_ok s = (1 \<le> length s \<and> length s \<le> 5 \<and> list_all upper_letter s)"

definition point_before :: "date \<Rightarrow> series \<Rightarrow> point option" where
  \<comment> \<open>the specification's words: the price point immediately before \<open>d\<close>\<close>
  "point_before d w =
     (case filter (\<lambda>p. fst p < d) w of [] \<Rightarrow> None | q # qs \<Rightarrow> Some (last (q # qs)))"

definition point_after :: "date \<Rightarrow> series \<Rightarrow> point option" where
  \<comment> \<open>the specification's words: the price point immediately after \<open>d\<close>\<close>
  "point_after d w =
     (case filter (\<lambda>p. d < fst p) w of [] \<Rightarrow> None | q # qs \<Rightarrow> Some q)"

definition spec_post_move :: "date \<Rightarrow> series \<Rightarrow> fnum option" where
  \<comment> \<open>the specification's words: the percent change from the point immediately before
      \<open>d\<close> to the point immediately after \<open>d\<close>\<close>
  "spec_post_move d w =
     (case point_before d w of
        None \<Rightarrow> None
      | Some a \<Rightarrow>
          (case point_after d w of
             None \<Rightarrow> None
           | Some b \<Rightarrow> Some (pct_change (snd a) (snd b))))"

definition post_move_of_window :: "series \<Rightarrow> fnum list" where
  \<comment> \<open>what one earnings date adds to \<open>post_moves\<close>, given its window\<close>
  "post_move_of_window w =
     (if 2 \<le> length w then [pct_change (snd (w ! 0)) (snd (w ! 1))] else [])"

definition pre_runup_of_window :: "series \<Rightarrow> fnum list" where
  \<comment> \<open>what one earnings date adds to \<open>pre_runups\<close>, given its window\<close>
  "pre_runup_of_window w =
     (if w \<noteq> [] then [pct_change (snd (hd w)) (snd (last w))] else [])"

definition windows_post :: "env \<Rightarrow> string \<Rightarrow> date list \<Rightarrow> series list" where
  \<comment> \<open>the windows \<open>[d - 1, d + 2]\<close> that were fetched, in order\<close>
  "windows_post e t ds =
     concat (map (\<lambda>d. case history_range e t (d - 1) (d + 2) of
                         Inl _ \<Rightarrow> [] | Inr w \<Rightarrow> [w]) ds)"

definition windows_pre :: "env \<Rightarrow> string \<Rightarrow> date list \<Rightarrow> series list" where
  \<comment> \<open>the windows \<open>[d - 30, d]\<close> that were fetched, in order\<close>
  "windows_pre e t ds =
     concat (map (\<lambda>d. case history_range e t (d - 30) d of
                         Inl _ \<Rightarrow> [] | Inr w \<Rightarrow> [w]) ds)"

subsection \<open>Sample data\<close>

text \<open>
  One set of provider answers, on which the properties are exercised. Every ticker has the
  earnings dates 100 and 200, post-earnings windows with the moves 6 and -4 percent, no row
  in its pre-earnings windows, a target price 10 percent above the current price and a
  30-day run-up of 3 percent against 1 percent for the benchmark, except: \<open>ERR\<close> (its
  fundamentals cannot be fetched), \<open>BBB\<close> (market cap below the threshold), \<open>NOT\<close> (no
  target price), \<open>NOD\<close> (the earnings endpoint fails), \<open>NOP\<close> (no price rows at all),
  \<open>ZER\<close> (a window that starts with a close of 0 and goes to 5), \<open>NAN\<close> (a window with two
  closes of 0), \<open>PRE\<close> (one pre-earnings window with rows) and \<open>TOP\<close> (a 30-day run-up of
  13 percent). No value of the sample lies halfway between two hundredths, and the sort
  leaves a list with a \<open>nan\<close> key as it is.
\<close>

definition sample_info :: info where
  "sample_info = \<lparr> shortName = Some ''Acme'', marketCap = Some 20000000000,
                   targetMeanPrice = Some 110, currentPrice = Some 100 \<rparr>"

definition sample_env :: env where
  "sample_env =
     \<lparr> ticker_info = (\<lambda>t.
         if t = ''ERR'' then Inl FetchError
         else if t = ''BBB'' then Inr (sample_info\<lparr>marketCap := Some 5000000000\<rparr>)
         else if t = ''NOT'' then Inr (sample_info\<lparr>targetMeanPrice := None\<rparr>)
         else Inr sample_info),
       earnings_api = (\<lambda>t. if t = ''NOD'' then Inl FetchError else Inr [100, 200]),
       history_range = (\<lambda>t s e.
         if t = ''NOP'' then Inr []
         else if e - s = 3 then
           (if s = 99 then
              (if t = ''ZER'' then Inr [(99, 0), (100, 5)]
               else if t = ''NAN'' then Inr [(99, 0), (100, 0)]
               else Inr [(99, 50), (100, 53), (101, 54)])
            else Inr [(200, 50), (201, 48)])
         else if t = ''PRE'' \<and> e = 100 then Inr [(70, 40), (99, 50)]
         else Inr []),
       history_30d = (\<lambda>t.
         if t = ''SPY'' then Inr [(300, 400), (329, 404)]
         else if t = ''TOP'' then Inr [(300, 100), (329, 113)]
         else Inr [(300, 100), (329, 103)]) \<rparr>"

definition sample_runtime :: runtime where
  "sample_runtime = \<lparr> tie_rounds_up = (\<lambda>t fld. False), nan_sort = (\<lambda>keys. []) \<rparr>"

definition no_benchmark_env :: env where
  \<comment> \<open>the sample data, but with no row for the benchmark\<close>
  "no_benchmark_env =
     sample_env\<lparr>history_30d := (\<lambda>t. if t = ''SPY'' then Inr [] else history_30d sample_env t)\<rparr>"

definition cand :: "string \<Rightarrow> candidate" where
  "cand s = \<lparr> symbol = s, reportDate = ''2024-05-01'' \<rparr>"

definition sample_result :: "string \<Rightarrow> fnum \<Rightarrow> fnum \<Rightarrow> fnum \<Rightarrow> fnum \<Rightarrow> result" where
  "sample_result s score avg runup wr =
     \<lparr> ticker = s, company_name = ''Acme'', earnings_date = ''2024-05-01'',
       move_score = score, avg_move = avg, analyst_upside = Fin 10, stock_runup = runup,
       win_rate = wr, avg_pre_earnings_runup = Fin 0 \<rparr>"

definition sample_features :: features where
  "sample_features =
     \<lparr> f_avg_abs_move = Fin 5, f_win_rate = Fin 50, f_avg_pre_earnings_runup = Fin 0,
       f_analyst_upside = Fin 10, f_current_runup = Fin 3, f_relative_runup = Fin 2,
       f_move_score = Fin (59 / 10) \<rparr>"

section \<open>Properties\<close>

subsection \<open>Auxiliary facts\<close>

lemma analyze_PassedD:
  assumes "analyze e spy c = Passed (name, f)"
  shows "symbol_matches (symbol c) \<and>
    (\<exists>fi cap tp cp post pre h.
       ticker_info e (symbol c) = Inr fi \<and> shortName fi = Some name \<and> name \<noteq> [] \<and>
       marketCap fi = Some cap \<and> 10000000000 \<le> cap \<and>
       targetMeanPrice fi = Some tp \<and> tp \<noteq> 0 \<and>
       get_historical_earnings_from_api e (symbol c) \<noteq> [] \<and>
       collect_moves e (symbol c) (get_historical_earnings_from_api e (symbol c)) [] [] = Inr (post, pre) \<and>
       post \<noteq> [] \<and> currentPrice fi = Some cp \<and> cp \<noteq> 0 \<and>
       history_30d e (symbol c) = Inr h \<and> h \<noteq> [] \<and>
       f = \<lparr> f_avg_abs_move = avg_abs_move post,
             f_win_rate = win_rate_pct post,
             f_avg_pre_earnings_runup = avg_pre_runup pre,
             f_analyst_upside = pct_change cp tp,
             f_current_runup = pct_change (snd (hd h)) (snd (last h)),
             f_relative_runup = fabs (fsub (pct_change (snd (hd h)) (snd (last h))) spy),
             f_move_score = composite_score (avg_abs_move post) (pct_change cp tp)
                (fabs (fsub (pct_change (snd (hd h)) (snd (last h))) spy)) \<rparr>)"
  using assms unfolding analyze_def Let_def
  by (auto split: if_splits sum.splits option.splits prod.splits)

lemma collect_moves_lists:
  "collect_moves e t ds post pre = Inr (post', pre') \<Longrightarrow>
     post' = post @ concat (map post_move_of_window (windows_post e t ds)) \<and>
     pre' = pre @ concat (map pre_runup_of_window (windows_pre e t ds)) \<and>
     length (windows_post e t ds) = length ds \<and> length (windows_pre e t ds) = length ds"
proof (induction ds arbitrary: post pre)
  case Nil
  then show ?case by (simp add: windows_post_def windows_pre_def)
next
  case (Cons d ds)
  from Cons.prems obtain hp hq where
    hp: "history_range e t (d - 1) (d + 2) = Inr hp" and
    hq: "history_range e t (d - 30) d = Inr hq" and
    rec: "collect_moves e t ds (post @ post_move_of_window hp) (pre @ pre_runup_of_window hq)
            = Inr (post', pre')"
    by (auto simp: Let_def post_move_of_window_def pre_runup_of_window_def
             split: sum.splits if_splits)
  from Cons.IH [OF rec] show ?case
    using hp hq by (simp add: windows_post_def windows_pre_def)
qed

lemma post_windows_unfold:
  "concat (map post_move_of_window (windows_post e t ds)) =
   concat (map (\<lambda>d. case history_range e t (d - 1) (d + 2) of
                       Inl _ \<Rightarrow> []
                     | Inr w \<Rightarrow> if 2 \<le> length w
                                then [pct_change (snd (w ! 0)) (snd (w ! 1))] else []) ds)"
  by (induction ds) (auto simp: windows_post_def post_move_of_window_def split: sum.splits)

lemma pre_windows_unfold:
  "concat (map pre_runup_of_window (windows_pre e t ds)) =
   concat (map (\<lambda>d. case history_range e t (d - 30) d of
                       Inl _ \<Rightarrow> []
                     | Inr w \<Rightarrow> if w \<noteq> []
                                then [pct_change (snd (hd w)) (snd (last w))] else []) ds)"
  by (induction ds) (auto simp: windows_pre_def pre_runup_of_window_def split: sum.splits)

lemma collect_moves_fetched:
  "collect_moves e t ds post pre = Inr (post', pre') \<Longrightarrow> d \<in> set ds \<Longrightarrow>
     (\<exists>w. history_range e t (d - 1) (d + 2) = Inr w) \<and>
     (\<exists>w. history_range e t (d - 30) d = Inr w)"
proof (induction ds arbitrary: post pre)
  case Nil
  then show ?case by simp
next
  case (Cons a ds)
  from Cons.prems(1) obtain hp hq post1 pre1 where
    hp: "history_range e t (a - 1) (a + 2) = Inr hp" and
    hq: "history_range e t (a - 30) a = Inr hq" and
    rec: "collect_moves e t ds post1 pre1 = Inr (post', pre')"
    by (auto simp: Let_def split: sum.splits if_splits)
  show ?case
  proof (cases "d = a")
    case True
    with hp hq show ?thesis by simp
  next
    case False
    with Cons.prems(2) have "d \<in> set ds" by simp
    from Cons.IH [OF rec this] show ?thesis .
  qed
qed

lemma fadd_NaN_right: "fadd x NaN = NaN"
  by (cases x) simp_all

lemma foldl_fadd_NaN: "foldl fadd NaN xs = NaN"
  by (induction xs) simp_all

lemma foldl_fadd_has_NaN: "NaN \<in> set xs \<Longrightarrow> foldl fadd a xs = NaN"
proof (induction xs arbitrary: a)
  case Nil
  then show ?case by simp
next
  case (Cons x xs)
  show ?case
  proof (cases "x = NaN")
    case True
    then show ?thesis by (simp add: fadd_NaN_right foldl_fadd_NaN)
  next
    case False
    with Cons.prems have "NaN \<in> set xs" by simp
    from Cons.IH [OF this] show ?thesis by simp
  qed
qed

lemma foldl_fadd_Fin: "foldl fadd (Fin a) (map Fin qs) = Fin (a + sum_list qs)"
  by (induction qs arbitrary: a) (simp_all add: add.assoc)

lemma foldl_fadd_PosInf:
  "NaN \<notin> set xs \<Longrightarrow> NegInf \<notin> set xs \<Longrightarrow> foldl fadd PosInf xs = PosInf"
proof (induction xs)
  case Nil
  then show ?case by simp
next
  case (Cons x xs)
  then show ?case by (cases x) simp_all
qed

lemma foldl_fadd_has_PosInf:
  "NaN \<notin> set xs \<Longrightarrow> NegInf \<notin> set xs \<Longrightarrow> PosInf \<in> set xs \<Longrightarrow>
     foldl fadd (Fin a) xs = PosInf"
proof (induction xs arbitrary: a)
  case Nil
  then show ?case by simp
next
  case (Cons x xs)
  show ?case
  proof (cases x)
    case (Fin q)
    with Cons.prems have "NaN \<notin> set xs" "NegInf \<notin> set xs" "PosInf \<in> set xs" by simp_all
    from Cons.IH [OF this] Fin show ?thesis by simp
  next
    case PosInf
    with Cons.prems show ?thesis by (simp add: foldl_fadd_PosInf)
  next
    case NegInf
    with Cons.prems show ?thesis by simp
  next
    case NaN
    with Cons.prems show ?thesis by simp
  qed
qed

lemma NaN_in_map_fabs: "NaN \<in> set (map fabs ms) \<longleftrightarrow> NaN \<in> set ms"
proof (induction ms)
  case Nil
  then show ?case by simp
next
  case (Cons m ms)
  then show ?case by (cases m) auto
qed

lemma NegInf_notin_map_fabs: "NegInf \<notin> set (map fabs ms)"
proof (induction ms)
  case Nil
  then show ?case by simp
next
  case (Cons m ms)
  then show ?case by (cases m) auto
qed

lemma PosInf_in_map_fabs:
  "PosInf \<in> set (map fabs ms) \<longleftrightarrow> PosInf \<in> set ms \<or> NegInf \<in> set ms"
proof (induction ms)
  case Nil
  then show ?case by simp
next
  case (Cons m ms)
  then show ?case by (cases m) auto
qed

lemma map_fabs_finite:
  "NaN \<notin> set ms \<Longrightarrow> PosInf \<notin> set ms \<Longrightarrow> NegInf \<notin> set ms \<Longrightarrow>
     map fabs ms = map Fin (map (\<lambda>m. case m of Fin q \<Rightarrow> \<bar>q\<bar> | _ \<Rightarrow> 0) ms)"
proof (induction ms)
  case Nil
  then show ?case by simp
next
  case (Cons m ms)
  then show ?case by (cases m) simp_all
qed

lemma avg_abs_move_mean: "avg_abs_move ms = mean_of_abs ms"
proof (cases "NaN \<in> set ms")
  case True
  then have "NaN \<in> set (map fabs ms)" by (simp only: NaN_in_map_fabs)
  from foldl_fadd_has_NaN [OF this] True show ?thesis
    by (simp add: avg_abs_move_def mean_of_abs_def fsum_def)
next
  case nonan: False
  then have n1: "NaN \<notin> set (map fabs ms)" by (simp only: NaN_in_map_fabs not_False_eq_True)
  have n2: "NegInf \<notin> set (map fabs ms)" by (rule NegInf_notin_map_fabs)
  show ?thesis
  proof (cases "PosInf \<in> set ms \<or> NegInf \<in> set ms")
    case True
    then have "PosInf \<in> set (map fabs ms)" by (simp only: PosInf_in_map_fabs)
    from foldl_fadd_has_PosInf [OF n1 n2 this] nonan True show ?thesis
      by (simp add: avg_abs_move_def mean_of_abs_def fsum_def)
  next
    case False
    with nonan have eq: "map fabs ms = map Fin (map (\<lambda>m. case m of Fin q \<Rightarrow> \<bar>q\<bar> | _ \<Rightarrow> 0) ms)"
      by (intro map_fabs_finite) simp_all
    have "foldl fadd (Fin 0) (map fabs ms) =
          Fin (0 + sum_list (map (\<lambda>m. case m of Fin q \<Rightarrow> \<bar>q\<bar> | _ \<Rightarrow> 0) ms))"
      unfolding eq by (rule foldl_fadd_Fin)
    then have sm: "fsum (map fabs ms) =
          Fin (sum_list (map (\<lambda>m. case m of Fin q \<Rightarrow> \<bar>q\<bar> | _ \<Rightarrow> 0) ms))"
      by (simp add: fsum_def)
    show ?thesis
      unfolding avg_abs_move_def sm mean_of_abs_def using nonan False by simp
  qed
qed

lemma mean_of_abs_Fin:
  "mean_of_abs (map Fin qs) = Fin (sum_list (map abs qs) / of_nat (length qs))"
proof -
  have a: "map (\<lambda>m. case m of Fin q \<Rightarrow> \<bar>q\<bar> | _ \<Rightarrow> 0) (map Fin qs) = map abs qs"
    by (induction qs) simp_all
  have b: "NaN \<notin> set (map Fin qs)" "PosInf \<notin> set (map Fin qs)" "NegInf \<notin> set (map Fin qs)"
    by auto
  show ?thesis
    unfolding mean_of_abs_def a using b by (simp del: map_map set_map)
qed

lemma screen_loop_map_filter:
  "screen_loop rt e b cs acc = acc @ List.map_filter (appended_result rt e b) cs"
proof (induction cs arbitrary: acc)
  case Nil
  then show ?case by simp
next
  case (Cons c cs)
  then show ?case
    by (cases "screen_ticker rt e b c") (simp_all add: appended_result_def)
qed

lemma screen_ticker_AppendedD:
  "screen_ticker rt e b c = Appended r \<Longrightarrow>
     \<exists>name f. analyze e b c = Passed (name, f) \<and> r = build_result rt c name f"
  by (auto simp: screen_ticker_def split: attempt.splits prod.splits)

lemma appended_result_keys:
  "appended_result rt e b c = Some r \<Longrightarrow>
     ticker r = symbol c \<and> earnings_date r = reportDate c"
  by (auto simp: appended_result_def build_result_def split: outcome.splits
           dest!: screen_ticker_AppendedD)

lemma accepted_iff:
  "accepted (screen_ticker rt e spy c) \<longleftrightarrow> (\<exists>name f. analyze e spy c = Passed (name, f))"
  by (auto simp: accepted_def screen_ticker_def split: attempt.splits)

lemma analyze_symbol_cong: "symbol c' = symbol c \<Longrightarrow> analyze e spy c' = analyze e spy c"
  by (simp add: analyze_def)

lemma analyze_Raised_any_benchmark:
  "analyze e spy c = Raised err \<Longrightarrow> analyze e spy' c = Raised err"
  unfolding analyze_def Let_def
  by (auto split: if_splits sum.splits option.splits prod.splits)

lemma screen_ticker_Failed_any_benchmark:
  "screen_ticker rt e spy c = Failed err \<Longrightarrow> screen_ticker rt e spy' c = Failed err"
proof -
  assume "screen_ticker rt e spy c = Failed err"
  then have "analyze e spy c = Raised err"
    by (auto simp: screen_ticker_def split: attempt.splits prod.splits)
  from analyze_Raised_any_benchmark [OF this] show ?thesis
    by (simp add: screen_ticker_def)
qed

lemma set_map_filter: "set (List.map_filter f xs) = {y. \<exists>x\<in>set xs. f x = Some y}"
  by (induction xs) (auto split: option.splits)

lemma mset_swap_at: "mset (swap_at p xs) = mset xs"
  by (simp add: swap_at_def mset_swap)

lemma mset_rearrange: "mset (rearrange swaps xs) = mset xs"
  unfolding rearrange_def
  by (induction swaps arbitrary: xs) (simp_all add: mset_swap_at)

lemma mset_sorted_by_score_desc: "mset (sorted_by_score_desc rt xs) = mset xs"
  by (simp add: sorted_by_score_desc_def mset_rearrange del: set_map)

lemma set_sorted_by_score_desc: "set (sorted_by_score_desc rt xs) = set xs"
  using mset_sorted_by_score_desc [of rt xs] by (metis set_mset_mset)

lemma length_sorted_by_score_desc: "length (sorted_by_score_desc rt xs) = length xs"
  using mset_sorted_by_score_desc [of rt xs] by (metis size_mset)

lemma screen_stocks_InrD:
  assumes "screen_stocks_for_opportunities rt e tickers = Inr out"
  shows "\<exists>spy. benchmark_runup e = Inr spy \<and>
           out = sorted_by_score_desc rt (List.map_filter (appended_result rt e spy) tickers)"
  using assms
  by (auto simp: screen_stocks_for_opportunities_def screen_loop_map_filter split: sum.splits)

lemma screen_stocks_returns_iff:
  "(\<exists>out. screen_stocks_for_opportunities rt e tickers = Inr out) \<longleftrightarrow>
   (\<exists>spy. benchmark_runup e = Inr spy)"
  by (auto simp: screen_stocks_for_opportunities_def split: sum.splits)

lemma subset_add_mset: "M \<subseteq># N \<Longrightarrow> M \<subseteq># add_mset x N"
  by (auto simp: subseteq_mset_def le_SucI)

lemma map_filter_keys_subset:
  assumes "\<And>c r. f c = Some r \<Longrightarrow> kr r = kc c"
  shows "mset (map kr (List.map_filter f cs)) \<subseteq># mset (map kc cs)"
proof (induction cs)
  case Nil
  then show ?case by simp
next
  case (Cons c cs)
  show ?case
  proof (cases "f c")
    case None
    with Cons show ?thesis
      by (simp add: subset_add_mset)
  next
    case (Some r)
    with assms have "kr r = kc c" by simp
    with Some Cons show ?thesis by simp
  qed
qed

lemma map_filter_append:
  "List.map_filter f (xs @ ys) = List.map_filter f xs @ List.map_filter f ys"
  by (simp add: List.map_filter_def)

lemma filter_eq_order:
  "filter P xs = as @ a # bs @ b # cs \<Longrightarrow> \<exists>as' bs' cs'. xs = as' @ a # bs' @ b # cs'"
proof (induction xs arbitrary: as)
  case Nil
  then show ?case by simp
next
  case (Cons x xs)
  show ?case
  proof (cases "P x")
    case False
    with Cons.prems have "filter P xs = as @ a # bs @ b # cs" by simp
    from Cons.IH [OF this] obtain as' bs' cs' where "xs = as' @ a # bs' @ b # cs'" by blast
    then have "x # xs = (x # as') @ a # bs' @ b # cs'" by simp
    then show ?thesis by blast
  next
    case True
    with Cons.prems have eq: "x # filter P xs = as @ a # bs @ b # cs" by simp
    show ?thesis
    proof (cases as)
      case Nil
      with eq have xa: "x = a" and rest: "filter P xs = bs @ b # cs" by simp_all
      from rest have "b \<in> set (filter P xs)" by simp
      then have "b \<in> set xs" by simp
      then obtain bs' cs' where "xs = bs' @ b # cs'" by (auto simp: in_set_conv_decomp)
      with xa have "x # xs = [] @ a # bs' @ b # cs'" by simp
      then show ?thesis by blast
    next
      case (Cons a0 as0)
      with eq have "filter P xs = as0 @ a # bs @ b # cs" by simp
      from Cons.IH [OF this] obtain as' bs' cs' where "xs = as' @ a # bs' @ b # cs'" by blast
      then have "x # xs = (x # as') @ a # bs' @ b # cs'" by simp
      then show ?thesis by blast
    qed
  qed
qed

lemma fge_iff_desc_rank:
  "x \<noteq> NaN \<Longrightarrow> y \<noteq> NaN \<Longrightarrow> fge x y \<longleftrightarrow> desc_rank x \<le> desc_rank y"
  by (cases x; cases y) (simp_all add: less_eq_prod_def)

lemma desc_rank_inj: "desc_rank x = desc_rank y \<longleftrightarrow> x = y"
  by (cases x; cases y) simp_all

lemma not_descending_with_nan:
  assumes "r \<in> set xs" and "move_score r = NaN" and "2 \<le> length xs"
  shows "\<not> descending xs"
proof
  assume d: "descending xs"
  from assms(3) obtain a b rest where xs: "xs = a # b # rest"
    by (cases xs; cases "tl xs") auto
  from d xs have ab: "\<forall>y\<in>set (b # rest). fge (move_score a) (move_score y)"
    by (simp add: descending_def)
  show False
  proof (cases "r = a")
    case True
    with ab assms(2) show False by simp
  next
    case False
    with assms(1) xs have "r \<in> set (b # rest)" by simp
    with ab have "fge (move_score a) (move_score r)" by blast
    with assms(2) show False by (cases "move_score a") simp_all
  qed
qed

lemma nan_key_never_descending:
  assumes "r \<in> set xs" and "move_score r = NaN" and "2 \<le> length xs"
  shows "\<not> descending (sorted_by_score_desc rt xs)"
proof (rule not_descending_with_nan)
  from assms(1) show "r \<in> set (sorted_by_score_desc rt xs)"
    by (simp only: set_sorted_by_score_desc)
  from assms(2) show "move_score r = NaN" .
  from assms(3) show "2 \<le> length (sorted_by_score_desc rt xs)"
    by (simp only: length_sorted_by_score_desc)
qed

lemma ranking_without_nan:
  assumes "screen_stocks_for_opportunities rt e tickers = Inr out"
    and "NaN \<notin> move_score ` set out"
  shows "descending out \<and>
         (\<exists>spy. benchmark_runup e = Inr spy \<and>
            (\<forall>k. filter (\<lambda>r. move_score r = k) out =
                 filter (\<lambda>r. move_score r = k)
                   (List.map_filter (appended_result rt e spy) tickers)))"
proof -
  from screen_stocks_InrD [OF assms(1)] obtain spy where
    b: "benchmark_runup e = Inr spy" and
    o: "out = sorted_by_score_desc rt (List.map_filter (appended_result rt e spy) tickers)"
    by auto
  let ?acc = "List.map_filter (appended_result rt e spy) tickers"
  have "NaN \<notin> move_score ` set ?acc"
    using assms(2) unfolding o set_sorted_by_score_desc .
  then have o': "out = sort_key (\<lambda>r. desc_rank (move_score r)) ?acc"
    unfolding o by (simp add: sorted_by_score_desc_def)
  have "sorted (map (\<lambda>r. desc_rank (move_score r)) out)"
    unfolding o' by (rule sorted_sort_key)
  then have "sorted_wrt (\<lambda>a b. desc_rank (move_score a) \<le> desc_rank (move_score b)) out"
    by (simp add: sorted_map)
  then have "sorted_wrt (\<lambda>a b. fge (move_score a) (move_score b)) out"
  proof (rule sorted_wrt_mono_rel [rotated])
    fix a b assume "a \<in> set out" "b \<in> set out"
      and le: "desc_rank (move_score a) \<le> desc_rank (move_score b)"
    with assms(2) have "move_score a \<noteq> NaN" "move_score b \<noteq> NaN" by force+
    with le show "fge (move_score a) (move_score b)" by (simp add: fge_iff_desc_rank)
  qed
  then have d: "descending out" by (simp add: descending_def)
  have "filter (\<lambda>r. move_score r = k) out = filter (\<lambda>r. move_score r = k) ?acc" for k
  proof -
    have "filter (\<lambda>r. desc_rank (move_score r) = desc_rank k) out =
          filter (\<lambda>r. desc_rank (move_score r) = desc_rank k) ?acc"
      unfolding o' by (rule sort_key_stable)
    then show ?thesis by (simp only: desc_rank_inj)
  qed
  with d b show ?thesis by blast
qed

subsection \<open>Facts about the sample data\<close>

lemma sample_benchmark: "benchmark_runup sample_env = Inr (Fin 1)"
  by code_simp

lemma sample_analyze_AAA:
  "analyze sample_env (Fin 1) (cand ''AAA'') = Passed (''Acme'', sample_features)"
  by code_simp

lemma sample_analyze_ZER:
  "analyze sample_env (Fin 1) (cand ''ZER'') =
     Passed (''Acme'', sample_features\<lparr>f_avg_abs_move := PosInf, f_move_score := PosInf\<rparr>)"
  by code_simp

lemma sample_collect_AAA:
  "collect_moves sample_env ''AAA'' [100, 200] [] [] = Inr ([Fin 6, Fin (- 4)], [])"
  by code_simp

lemma sample_collect_ZER:
  "collect_moves sample_env (symbol (cand ''ZER''))
     (get_historical_earnings_from_api sample_env (symbol (cand ''ZER''))) [] [] =
   Inr ([PosInf, Fin (- 4)], [])"
  by code_simp

lemma sample_ranking:
  "screen_stocks_for_opportunities sample_runtime sample_env
     [cand ''AAA'', cand ''ERR'', cand ''TOP'', cand ''BBB'', cand ''CCC''] =
   Inr [sample_result ''TOP'' (Fin (79 / 10)) (Fin 5) (Fin 13) (Fin 50),
        sample_result ''AAA'' (Fin (59 / 10)) (Fin 5) (Fin 3) (Fin 50),
        sample_result ''CCC'' (Fin (59 / 10)) (Fin 5) (Fin 3) (Fin 50)]"
  by code_simp

lemma sample_screen_ERR:
  "screen_ticker sample_runtime sample_env (Fin 1) (cand ''ERR'') = Failed FetchError"
  by code_simp

subsection \<open>The composite score\<close>

text \<open>
  C1 (as stated, refuted at the example): for the features
  \<open>avgAbsPostMove = 5.0\<close>, \<open>analystUpsidePct = 10.0\<close>, \<open>relativeRunup = 2.0\<close> the weighted
  sum of line 215 is \<open>2.5 + 3.0 + 0.4 = 5.9\<close>, not \<open>6.4\<close>.
\<close>

theorem score_example_counterexample:
  "composite_score (Fin 5) (Fin 10) (Fin 2) = Fin (59 / 10) \<and>
   composite_score (Fin 5) (Fin 10) (Fin 2) \<noteq> Fin (64 / 10)"
  by code_simp

text \<open>
  C1 (amended): for every accepted ticker the composite score equals
  \<open>avgAbsPostMove * 0.5 + analystUpsidePct * 0.3 + relativeRunup * 0.2\<close>; in particular
  for the features \<open>(5.0, 10.0, 2.0)\<close> the score is \<open>5.9\<close>.
\<close>

theorem composite_score_formula:
  assumes "analyze e spy c = Passed (name, f)"
  shows "f_move_score f =
           fadd (fadd (fscale (f_avg_abs_move f) (1 / 2)) (fscale (f_analyst_upside f) (3 / 10)))
                (fscale (f_relative_runup f) (1 / 5)) \<and>
         (\<forall>a u r. f_avg_abs_move f = Fin a \<and> f_analyst_upside f = Fin u \<and>
                  f_relative_runup f = Fin r \<longrightarrow>
            f_move_score f = Fin (a * (1 / 2) + u * (3 / 10) + r * (1 / 5))) \<and>
         composite_score (Fin 5) (Fin 10) (Fin 2) = Fin (59 / 10)"
proof -
  from analyze_PassedD [OF assms]
  have 1: "f_move_score f =
           fadd (fadd (fscale (f_avg_abs_move f) (1 / 2)) (fscale (f_analyst_upside f) (3 / 10)))
                (fscale (f_relative_runup f) (1 / 5))"
    by (auto simp: composite_score_def)
  then have 2: "\<forall>a u r. f_avg_abs_move f = Fin a \<and> f_analyst_upside f = Fin u \<and>
                  f_relative_runup f = Fin r \<longrightarrow>
            f_move_score f = Fin (a * (1 / 2) + u * (3 / 10) + r * (1 / 5))"
    by simp
  have 3: "composite_score (Fin 5) (Fin 10) (Fin 2) = Fin (59 / 10)"
    by (simp add: composite_score_def)
  from 1 2 3 show ?thesis by blast
qed

theorem composite_score_formula_witness:
  "analyze sample_env (Fin 1) (cand ''AAA'') = Passed (''Acme'', sample_features) \<and>
   f_move_score sample_features =
     fadd (fadd (fscale (f_avg_abs_move sample_features) (1 / 2))
                (fscale (f_analyst_upside sample_features) (3 / 10)))
          (fscale (f_relative_runup sample_features) (1 / 5))"
proof -
  from composite_score_formula [OF sample_analyze_AAA]
  have "f_move_score sample_features =
     fadd (fadd (fscale (f_avg_abs_move sample_features) (1 / 2))
                (fscale (f_analyst_upside sample_features) (3 / 10)))
          (fscale (f_relative_runup sample_features) (1 / 5))"
    by (rule conjunct1)
  with sample_analyze_AAA show ?thesis by (rule conjI)
qed

subsection \<open>The post-earnings move\<close>

text \<open>
  C2 (as stated, refuted): for the earnings date 100 the window holds the points of the
  days 99, 100 and 101. The point immediately before the date is the one of day 99 and
  the point immediately after it is the one of day 101, a change of 8 percent; the code
  records the change from the first to the second row, 6 percent. For the date 200 the
  window holds the days 200 and 201 only: there is no point before the date, and the code
  records the change from day 200 to day 201.
\<close>

theorem post_move_counterexample:
  "history_range sample_env ''AAA'' (100 - 1) (100 + 2) = Inr [(99, 50), (100, 53), (101, 54)] \<and>
   collect_moves sample_env ''AAA'' [100] [] [] = Inr ([Fin 6], []) \<and>
   spec_post_move 100 [(99, 50), (100, 53), (101, 54)] = Some (Fin 8) \<and>
   history_range sample_env ''AAA'' (200 - 1) (200 + 2) = Inr [(200, 50), (201, 48)] \<and>
   collect_moves sample_env ''AAA'' [200] [] [] = Inr ([Fin (- 4)], []) \<and>
   spec_post_move 200 [(200, 50), (201, 48)] = None"
  by code_simp

text \<open>
  C2 (amended): when the loop over the earnings dates completes, every window was
  fetched, and the list of post-earnings moves holds, in the order of the dates, one entry
  for each date whose window has at least 2 rows: the percent change from the first row of
  the window to its second row. A window with fewer than 2 rows adds nothing.
\<close>

theorem post_moves_first_two_points:
  assumes "collect_moves e t ds [] [] = Inr (post, pre)"
  shows "(\<forall>d\<in>set ds. \<exists>w. history_range e t (d - 1) (d + 2) = Inr w) \<and>
         post = concat (map (\<lambda>d. case history_range e t (d - 1) (d + 2) of
                                   Inl _ \<Rightarrow> []
                                 | Inr w \<Rightarrow> if 2 \<le> length w
                                            then [pct_change (snd (w ! 0)) (snd (w ! 1))]
                                            else []) ds)"
proof -
  from collect_moves_lists [OF assms]
  have "post = concat (map post_move_of_window (windows_post e t ds))" by simp
  then have "post = concat (map (\<lambda>d. case history_range e t (d - 1) (d + 2) of
                                   Inl _ \<Rightarrow> []
                                 | Inr w \<Rightarrow> if 2 \<le> length w
                                            then [pct_change (snd (w ! 0)) (snd (w ! 1))]
                                            else []) ds)"
    by (simp only: post_windows_unfold)
  moreover have "\<forall>d\<in>set ds. \<exists>w. history_range e t (d - 1) (d + 2) = Inr w"
    using collect_moves_fetched [OF assms] by blast
  ultimately show ?thesis by blast
qed

theorem post_moves_first_two_points_witness:
  "collect_moves sample_env ''AAA'' [100, 200] [] [] = Inr ([Fin 6, Fin (- 4)], []) \<and>
   [Fin 6, Fin (- 4)] =
     concat (map (\<lambda>d. case history_range sample_env ''AAA'' (d - 1) (d + 2) of
                        Inl _ \<Rightarrow> []
                      | Inr w \<Rightarrow> if 2 \<le> length w
                                 then [pct_change (snd (w ! 0)) (snd (w ! 1))]
                                 else []) [100, 200])"
proof -
  from post_moves_first_two_points [OF sample_collect_AAA]
  have "[Fin 6, Fin (- 4)] =
     concat (map (\<lambda>d. case history_range sample_env ''AAA'' (d - 1) (d + 2) of
                        Inl _ \<Rightarrow> []
                      | Inr w \<Rightarrow> if 2 \<le> length w
                                 then [pct_change (snd (w ! 0)) (snd (w ! 1))]
                                 else []) [100, 200])"
    by (rule conjunct2)
  with sample_collect_AAA show ?thesis by (rule conjI)
qed

subsection \<open>The aggregates of the post-earnings moves\<close>

text \<open>
  C8: for every ticker that passes the gates, the list of post-earnings moves is not empty,
  \<open>avgAbsPostMove\<close> is the mean of the absolute values of the moves (for finite moves, their
  sum divided by their number) and \<open>winRatePct\<close> is 100 times the number of strictly
  positive moves divided by the number of moves; for the moves \<open>[3.0, -1.0, 2.0, -0.5]\<close>
  the win rate is 50.
\<close>

theorem post_move_aggregates:
  assumes "analyze e spy c = Passed (name, f)"
  shows "(\<exists>post pre.
            collect_moves e (symbol c) (get_historical_earnings_from_api e (symbol c)) [] []
              = Inr (post, pre) \<and> post \<noteq> [] \<and>
            f_avg_abs_move f = mean_of_abs post \<and>
            (\<forall>ms. post = map Fin ms \<longrightarrow>
               f_avg_abs_move f = Fin (sum_list (map abs ms) / of_nat (length ms))) \<and>
            f_win_rate f =
              Fin (100 * of_nat (length (filter fpos post)) / of_nat (length post))) \<and>
         win_rate_pct [Fin 3, Fin (- 1), Fin 2, Fin (- (1 / 2))] = Fin 50"
proof -
  have ex: "win_rate_pct [Fin 3, Fin (- 1), Fin 2, Fin (- (1 / 2))] = Fin 50"
    by (simp add: win_rate_pct_def)
  from analyze_PassedD [OF assms] obtain post pre where
    cm: "collect_moves e (symbol c) (get_historical_earnings_from_api e (symbol c)) [] []
           = Inr (post, pre)" and ne: "post \<noteq> []" and
    av: "f_avg_abs_move f = avg_abs_move post" and wr: "f_win_rate f = win_rate_pct post"
    by auto
  from av have m: "f_avg_abs_move f = mean_of_abs post"
    by (simp add: avg_abs_move_mean)
  then have fin: "\<forall>ms. post = map Fin ms \<longrightarrow>
               f_avg_abs_move f = Fin (sum_list (map abs ms) / of_nat (length ms))"
    by (simp add: mean_of_abs_Fin)
  from wr have w: "f_win_rate f =
              Fin (100 * of_nat (length (filter fpos post)) / of_nat (length post))"
    by (simp add: win_rate_pct_def)
  from cm ne m fin w ex show ?thesis by blast
qed

theorem post_move_aggregates_witness:
  "analyze sample_env (Fin 1) (cand ''ZER'') =
     Passed (''Acme'', sample_features\<lparr>f_avg_abs_move := PosInf, f_move_score := PosInf\<rparr>) \<and>
   f_avg_abs_move (sample_features\<lparr>f_avg_abs_move := PosInf, f_move_score := PosInf\<rparr>) =
     mean_of_abs [PosInf, Fin (- 4)] \<and>
   f_win_rate (sample_features\<lparr>f_avg_abs_move := PosInf, f_move_score := PosInf\<rparr>) =
     Fin (100 * of_nat (length (filter fpos [PosInf, Fin (- 4)])) /
            of_nat (length [PosInf, Fin (- 4)]))"
proof -
  from post_move_aggregates [OF sample_analyze_ZER] obtain post pre where
    cm: "collect_moves sample_env (symbol (cand ''ZER''))
           (get_historical_earnings_from_api sample_env (symbol (cand ''ZER''))) [] []
           = Inr (post, pre)" and
    av: "f_avg_abs_move (sample_features\<lparr>f_avg_abs_move := PosInf, f_move_score := PosInf\<rparr>) =
           mean_of_abs post" and
    wr: "f_win_rate (sample_features\<lparr>f_avg_abs_move := PosInf, f_move_score := PosInf\<rparr>) =
           Fin (100 * of_nat (length (filter fpos post)) / of_nat (length post))"
    by blast
  from cm [unfolded sample_collect_ZER] have "post = [PosInf, Fin (- 4)]" by simp
  with av wr sample_analyze_ZER show ?thesis by blast
qed

subsection \<open>Denominators\<close>

text \<open>
  C3 (the code departs from the claim): the window of the ticker ZER for the date 100
  starts with a close of 0 and goes to 5. Line 193 divides by that close; nothing is
  skipped and the ticker is not rejected: its record is appended with an infinite score
  and an infinite average move, and it is ranked first.
\<close>

theorem zero_close_divided:
  "history_range sample_env ''ZER'' (100 - 1) (100 + 2) = Inr [(99, 0), (100, 5)] \<and>
   pct_change 0 5 = PosInf \<and>
   collect_moves sample_env ''ZER'' [100, 200] [] [] = Inr ([PosInf, Fin (- 4)], []) \<and>
   screen_ticker sample_runtime sample_env (Fin 1) (cand ''ZER'') =
     Appended (sample_result ''ZER'' PosInf PosInf (Fin 3) (Fin 50)) \<and>
   screen_stocks_for_opportunities sample_runtime sample_env [cand ''AAA'', cand ''ZER''] =
     Inr [sample_result ''ZER'' PosInf PosInf (Fin 3) (Fin 50),
          sample_result ''AAA'' (Fin (59 / 10)) (Fin 5) (Fin 3) (Fin 50)]"
  by code_simp

subsection \<open>The symbol gate\<close>

text \<open>
  C4 (the code departs from the claim): the symbol made of \<open>ABC\<close> and a newline is not
  1 to 5 uppercase letters, yet it matches the pattern of line 173, whose \<open>$\<close> also
  matches before a final newline; with complete data the ticker is ranked.
\<close>

theorem newline_symbol_accepted:
  "\<not> spec_symbol_ok (''ABC'' @ [CHR 0x0A]) \<and>
   symbol_matches (''ABC'' @ [CHR 0x0A]) \<and>
   screen_stocks_for_opportunities sample_runtime sample_env [cand (''ABC'' @ [CHR 0x0A])] =
     Inr [sample_result (''ABC'' @ [CHR 0x0A]) (Fin (59 / 10)) (Fin 5) (Fin 3) (Fin 50)]"
  by code_simp

subsection \<open>Empty run-ups and empty post-moves\<close>

text \<open>
  C7: for a ticker that passes the gates 1 to 5 and whose loop over the earnings dates
  completes, an empty list of post-earnings moves rejects the ticker (gate 6), whereas an
  empty list of pre-earnings run-ups does not: with a non-empty list of post-moves, a
  current price and a 30-day series the ticker passes, and its average pre-earnings
  run-up is 0.
\<close>

theorem empty_sets_asymmetry:
  assumes "symbol_matches (symbol c)"
    and "ticker_info e (symbol c) = Inr fi"
    and "shortName fi = Some name" and "name \<noteq> []"
    and "marketCap fi = Some cap" and "10000000000 \<le> cap"
    and "targetMeanPrice fi = Some tp" and "tp \<noteq> 0"
    and "get_historical_earnings_from_api e (symbol c) \<noteq> []"
    and "collect_moves e (symbol c) (get_historical_earnings_from_api e (symbol c)) [] []
           = Inr (post, pre)"
  shows "(post = [] \<longrightarrow> screen_ticker rt e spy c = Skipped PostMoves) \<and>
         (pre = [] \<and> post \<noteq> [] \<and> currentPrice fi = Some cp \<and> cp \<noteq> 0 \<and>
          history_30d e (symbol c) = Inr h \<and> h \<noteq> [] \<longrightarrow>
            (\<exists>f. analyze e spy c = Passed (name, f) \<and> f_avg_pre_earnings_runup f = Fin 0) \<and>
            (\<forall>r. screen_ticker rt e spy c = Appended r \<longrightarrow> avg_pre_earnings_runup r = Fin 0))"
proof (intro conjI impI)
  assume "post = []"
  with assms show "screen_ticker rt e spy c = Skipped PostMoves"
    by (simp add: screen_ticker_def analyze_def)
next
  assume a: "pre = [] \<and> post \<noteq> [] \<and> currentPrice fi = Some cp \<and> cp \<noteq> 0 \<and>
          history_30d e (symbol c) = Inr h \<and> h \<noteq> []"
  with assms show "\<exists>f. analyze e spy c = Passed (name, f) \<and> f_avg_pre_earnings_runup f = Fin 0"
    by (simp add: analyze_def Let_def avg_pre_runup_def)
next
  assume a: "pre = [] \<and> post \<noteq> [] \<and> currentPrice fi = Some cp \<and> cp \<noteq> 0 \<and>
          history_30d e (symbol c) = Inr h \<and> h \<noteq> []"
  have r0: "round2 up 0 = 0" for up by (simp add: round2_def)
  from a assms show "\<forall>r. screen_ticker rt e spy c = Appended r \<longrightarrow> avg_pre_earnings_runup r = Fin 0"
    by (auto simp: screen_ticker_def analyze_def Let_def avg_pre_runup_def build_result_def r0)
qed

theorem empty_sets_asymmetry_witness:
  "collect_moves sample_env ''NOP'' [100, 200] [] [] = Inr ([], []) \<and>
   screen_ticker sample_runtime sample_env (Fin 1) (cand ''NOP'') = Skipped PostMoves \<and>
   collect_moves sample_env ''AAA'' [100, 200] [] [] = Inr ([Fin 6, Fin (- 4)], []) \<and>
   (\<exists>f. analyze sample_env (Fin 1) (cand ''AAA'') = Passed (''Acme'', f) \<and>
        f_avg_pre_earnings_runup f = Fin 0)"
proof -
  have n1: "symbol_matches (symbol (cand ''NOP''))" by code_simp
  have n2: "ticker_info sample_env (symbol (cand ''NOP'')) = Inr sample_info" by code_simp
  have i3: "shortName sample_info = Some ''Acme''" by code_simp
  have i4: "''Acme'' \<noteq> []" by simp
  have i5: "marketCap sample_info = Some 20000000000" by code_simp
  have i6: "(10000000000 :: int) \<le> 20000000000" by simp
  have i7: "targetMeanPrice sample_info = Some 110" by code_simp
  have i8: "(110 :: rat) \<noteq> 0" by simp
  have n9: "get_historical_earnings_from_api sample_env (symbol (cand ''NOP'')) \<noteq> []"
    by code_simp
  have n10: "collect_moves sample_env (symbol (cand ''NOP''))
               (get_historical_earnings_from_api sample_env (symbol (cand ''NOP''))) [] []
             = Inr ([], [])"
    by code_simp
  have nop: "collect_moves sample_env ''NOP'' [100, 200] [] [] = Inr ([], [])" by code_simp
  from empty_sets_asymmetry [where spy = "Fin 1" and rt = sample_runtime,
      OF n1 n2 i3 i4 i5 i6 i7 i8 n9 n10]
  have "([] :: fnum list) = [] \<longrightarrow>
          screen_ticker sample_runtime sample_env (Fin 1) (cand ''NOP'') = Skipped PostMoves"
    by (rule conjunct1)
  then have skipped:
    "screen_ticker sample_runtime sample_env (Fin 1) (cand ''NOP'') = Skipped PostMoves"
    by simp
  have a1: "symbol_matches (symbol (cand ''AAA''))" by code_simp
  have a2: "ticker_info sample_env (symbol (cand ''AAA'')) = Inr sample_info" by code_simp
  have a9: "get_historical_earnings_from_api sample_env (symbol (cand ''AAA'')) \<noteq> []"
    by code_simp
  have a10: "collect_moves sample_env (symbol (cand ''AAA''))
               (get_historical_earnings_from_api sample_env (symbol (cand ''AAA''))) [] []
             = Inr ([Fin 6, Fin (- 4)], [])"
    by code_simp
  have prem: "([] :: fnum list) = [] \<and> [Fin 6, Fin (- 4)] \<noteq> [] \<and>
        currentPrice sample_info = Some 100 \<and> (100 :: rat) \<noteq> 0 \<and>
        history_30d sample_env (symbol (cand ''AAA'')) = Inr [(300, 100), (329, 103)] \<and>
        [(300 :: int, 100 :: rat), (329, 103)] \<noteq> []"
    by code_simp
  from empty_sets_asymmetry [where spy = "Fin 1" and rt = sample_runtime and cp = 100
      and h = "[(300, 100), (329, 103)]", OF a1 a2 i3 i4 i5 i6 i7 i8 a9 a10]
  have "([] :: fnum list) = [] \<and> [Fin 6, Fin (- 4)] \<noteq> [] \<and>
        currentPrice sample_info = Some 100 \<and> (100 :: rat) \<noteq> 0 \<and>
        history_30d sample_env (symbol (cand ''AAA'')) = Inr [(300, 100), (329, 103)] \<and>
        [(300 :: int, 100 :: rat), (329, 103)] \<noteq> [] \<longrightarrow>
        (\<exists>f. analyze sample_env (Fin 1) (cand ''AAA'') = Passed (''Acme'', f) \<and>
             f_avg_pre_earnings_runup f = Fin 0) \<and>
        (\<forall>r. screen_ticker sample_runtime sample_env (Fin 1) (cand ''AAA'') = Appended r \<longrightarrow>
             avg_pre_earnings_runup r = Fin 0)"
    by (rule conjunct2)
  from this prem have "(\<exists>f. analyze sample_env (Fin 1) (cand ''AAA'') = Passed (''Acme'', f) \<and>
             f_avg_pre_earnings_runup f = Fin 0) \<and>
        (\<forall>r. screen_ticker sample_runtime sample_env (Fin 1) (cand ''AAA'') = Appended r \<longrightarrow>
             avg_pre_earnings_runup r = Fin 0)"
    by (rule mp)
  then have "\<exists>f. analyze sample_env (Fin 1) (cand ''AAA'') = Passed (''Acme'', f) \<and>
             f_avg_pre_earnings_runup f = Fin 0"
    by (rule conjunct1)
  with nop skipped sample_collect_AAA show ?thesis by (intro conjI)
qed

subsection \<open>Supplying a missing field\<close>

text \<open>
  C9: when a required field of a ticker's data (company name, market cap, target price or
  current price) is absent, the ticker is not accepted; so supplying a value for that field
  can never turn an accepted ticker into a rejected one.
\<close>

theorem filter_monotone:
  assumes "ticker_info e (symbol c) = Inr fi"
    and "(shortName fi = None \<and> fi' = fi\<lparr>shortName := Some n\<rparr>) \<or>
         (marketCap fi = None \<and> fi' = fi\<lparr>marketCap := Some m\<rparr>) \<or>
         (targetMeanPrice fi = None \<and> fi' = fi\<lparr>targetMeanPrice := Some tp\<rparr>) \<or>
         (currentPrice fi = None \<and> fi' = fi\<lparr>currentPrice := Some cp\<rparr>)"
    and "e' = e\<lparr>ticker_info := (ticker_info e)(symbol c := Inr fi')\<rparr>"
  shows "\<not> accepted (screen_ticker rt e spy c) \<and>
         \<not> (accepted (screen_ticker rt e spy c) \<and> \<not> accepted (screen_ticker rt e' spy c))"
proof -
  have "\<not> accepted (screen_ticker rt e spy c)"
  proof
    assume "accepted (screen_ticker rt e spy c)"
    then obtain name f where "analyze e spy c = Passed (name, f)"
      by (auto simp: accepted_iff)
    from analyze_PassedD [OF this] assms(1,2) show False by auto
  qed
  then show ?thesis by simp
qed

theorem filter_monotone_witness:
  "ticker_info sample_env (symbol (cand ''NOT'')) = Inr (sample_info\<lparr>targetMeanPrice := None\<rparr>) \<and>
   \<not> accepted (screen_ticker sample_runtime sample_env (Fin 1) (cand ''NOT'')) \<and>
   accepted (screen_ticker sample_runtime
     (sample_env\<lparr>ticker_info := (ticker_info sample_env)
        (symbol (cand ''NOT'') :=
           Inr (sample_info\<lparr>targetMeanPrice := None, targetMeanPrice := Some 110\<rparr>))\<rparr>)
     (Fin 1) (cand ''NOT''))"
proof -
  have h1: "ticker_info sample_env (symbol (cand ''NOT''))
              = Inr (sample_info\<lparr>targetMeanPrice := None\<rparr>)"
    by code_simp
  have h2: "(shortName (sample_info\<lparr>targetMeanPrice := None\<rparr>) = None \<and>
             sample_info\<lparr>targetMeanPrice := None, targetMeanPrice := Some 110\<rparr> =
               sample_info\<lparr>targetMeanPrice := None, shortName := Some n\<rparr>) \<or>
            (marketCap (sample_info\<lparr>targetMeanPrice := None\<rparr>) = None \<and>
             sample_info\<lparr>targetMeanPrice := None, targetMeanPrice := Some 110\<rparr> =
               sample_info\<lparr>targetMeanPrice := None, marketCap := Some m\<rparr>) \<or>
            (targetMeanPrice (sample_info\<lparr>targetMeanPrice := None\<rparr>) = None \<and>
             sample_info\<lparr>targetMeanPrice := None, targetMeanPrice := Some 110\<rparr> =
               sample_info\<lparr>targetMeanPrice := None, targetMeanPrice := Some 110\<rparr>) \<or>
            (currentPrice (sample_info\<lparr>targetMeanPrice := None\<rparr>) = None \<and>
             sample_info\<lparr>targetMeanPrice := None, targetMeanPrice := Some 110\<rparr> =
               sample_info\<lparr>targetMeanPrice := None, currentPrice := Some cp\<rparr>)" for n m cp
    by simp
  from filter_monotone [OF h1 h2 refl, of sample_runtime "Fin 1"]
  have "\<not> accepted (screen_ticker sample_runtime sample_env (Fin 1) (cand ''NOT''))"
    by (rule conjunct1)
  moreover have "accepted (screen_ticker sample_runtime
     (sample_env\<lparr>ticker_info := (ticker_info sample_env)
        (symbol (cand ''NOT'') :=
           Inr (sample_info\<lparr>targetMeanPrice := None, targetMeanPrice := Some 110\<rparr>))\<rparr>)
     (Fin 1) (cand ''NOT''))"
    by code_simp
  ultimately show ?thesis using h1 by (intro conjI)
qed

subsection \<open>A ticker whose processing raises\<close>

text \<open>
  C6: when the processing of a candidate raises inside the \<open>try\<close>, the batch is not
  aborted (it returns a ranking exactly when the benchmark run-up was obtained, before any
  candidate was looked at) and it gives exactly what it gives without that candidate,
  whatever stands before and after it; no result carries the symbol of the failing
  candidate.
\<close>

theorem fault_isolation:
  assumes "screen_ticker rt e spy c = Failed err"
  shows "screen_stocks_for_opportunities rt e (xs @ c # ys) =
           screen_stocks_for_opportunities rt e (xs @ ys) \<and>
         ((\<exists>out. screen_stocks_for_opportunities rt e (xs @ c # ys) = Inr out) \<longleftrightarrow>
          (\<exists>b. benchmark_runup e = Inr b)) \<and>
         (\<forall>out. screen_stocks_for_opportunities rt e (xs @ c # ys) = Inr out \<longrightarrow>
            symbol c \<notin> ticker ` set out)"
proof -
  have none: "appended_result rt e b c = None" for b
    using screen_ticker_Failed_any_benchmark [OF assms, of b]
    by (simp add: appended_result_def)
  have lp: "screen_loop rt e b (xs @ c # ys) [] = screen_loop rt e b (xs @ ys) []" for b
    by (simp add: screen_loop_map_filter map_filter_append none)
  have eq: "screen_stocks_for_opportunities rt e (xs @ c # ys) =
           screen_stocks_for_opportunities rt e (xs @ ys)"
    unfolding screen_stocks_for_opportunities_def lp ..
  have "symbol c \<notin> ticker ` set out"
    if o: "screen_stocks_for_opportunities rt e (xs @ c # ys) = Inr out" for out
  proof
    assume "symbol c \<in> ticker ` set out"
    then obtain r where r: "r \<in> set out" and t: "ticker r = symbol c" by auto
    from screen_stocks_InrD [OF o] obtain b where
      "out = sorted_by_score_desc rt (List.map_filter (appended_result rt e b) (xs @ c # ys))"
      by auto
    with r have "r \<in> set (List.map_filter (appended_result rt e b) (xs @ c # ys))"
      by (simp only: set_sorted_by_score_desc)
    then obtain c' where ap: "appended_result rt e b c' = Some r"
      by (auto simp: set_map_filter)
    from appended_result_keys [OF ap] t have "symbol c' = symbol c" by simp
    from analyze_symbol_cong [OF this] have "analyze e b c' = analyze e b c" .
    moreover from none [of b] have "\<forall>name f. analyze e b c \<noteq> Passed (name, f)"
      by (auto simp: appended_result_def screen_ticker_def)
    ultimately have "appended_result rt e b c' = None"
      by (auto simp: appended_result_def screen_ticker_def split: attempt.splits)
    with ap show False by simp
  qed
  with eq screen_stocks_returns_iff [of rt e "xs @ c # ys"] show ?thesis by blast
qed

theorem fault_isolation_witness:
  "screen_ticker sample_runtime sample_env (Fin 1) (cand ''ERR'') = Failed FetchError \<and>
   screen_stocks_for_opportunities sample_runtime sample_env
     ([cand ''AAA''] @ cand ''ERR'' # [cand ''ZER'']) =
   screen_stocks_for_opportunities sample_runtime sample_env ([cand ''AAA''] @ [cand ''ZER'']) \<and>
   screen_stocks_for_opportunities sample_runtime sample_env ([cand ''AAA''] @ [cand ''ZER'']) =
     Inr [sample_result ''ZER'' PosInf PosInf (Fin 3) (Fin 50),
          sample_result ''AAA'' (Fin (59 / 10)) (Fin 5) (Fin 3) (Fin 50)]"
proof -
  from fault_isolation [OF sample_screen_ERR, of "[cand ''AAA'']" "[cand ''ZER'']"]
  have eq: "screen_stocks_for_opportunities sample_runtime sample_env
              ([cand ''AAA''] @ cand ''ERR'' # [cand ''ZER'']) =
            screen_stocks_for_opportunities sample_runtime sample_env
              ([cand ''AAA''] @ [cand ''ZER''])"
    by (rule conjunct1)
  have v: "screen_stocks_for_opportunities sample_runtime sample_env
             ([cand ''AAA''] @ [cand ''ZER'']) =
     Inr [sample_result ''ZER'' PosInf PosInf (Fin 3) (Fin 50),
          sample_result ''AAA'' (Fin (59 / 10)) (Fin 5) (Fin 3) (Fin 50)]"
    by code_simp
  from sample_screen_ERR eq v show ?thesis by (intro conjI)
qed

subsection \<open>The ranking\<close>

text \<open>
  C5 (the code departs from the claim): the window of the ticker NAN for the date 100
  holds two closes of 0, so line 193 computes 0 / 0 and the score of the ticker is \<open>nan\<close>.
  The record is appended like any other, and the returned list, with the scores 5.9,
  \<open>nan\<close>, 7.9 in this order, is not sorted by score, highest first (no arrangement of
  a list of two or more records is, when one of the scores is \<open>nan\<close>).
\<close>

theorem nan_score_breaks_ranking:
  "history_range sample_env ''NAN'' (100 - 1) (100 + 2) = Inr [(99, 0), (100, 0)] \<and>
   pct_change 0 0 = NaN \<and>
   screen_ticker sample_runtime sample_env (Fin 1) (cand ''NAN'') =
     Appended (sample_result ''NAN'' NaN NaN (Fin 3) (Fin 0)) \<and>
   screen_stocks_for_opportunities sample_runtime sample_env
     [cand ''AAA'', cand ''NAN'', cand ''TOP''] =
     Inr [sample_result ''AAA'' (Fin (59 / 10)) (Fin 5) (Fin 3) (Fin 50),
          sample_result ''NAN'' NaN NaN (Fin 3) (Fin 0),
          sample_result ''TOP'' (Fin (79 / 10)) (Fin 5) (Fin 13) (Fin 50)] \<and>
   \<not> descending
     [sample_result ''AAA'' (Fin (59 / 10)) (Fin 5) (Fin 3) (Fin 50),
      sample_result ''NAN'' NaN NaN (Fin 3) (Fin 0),
      sample_result ''TOP'' (Fin (79 / 10)) (Fin 5) (Fin 13) (Fin 50)]"
  by code_simp

text \<open>
  C10 (as stated, refuted): with no row for the benchmark, line 168 raises on an empty
  candidate list as on any other: there is no output, empty or not.
\<close>

theorem empty_batch_counterexample:
  "history_30d no_benchmark_env ''SPY'' = Inr [] \<and>
   screen_stocks_for_opportunities sample_runtime no_benchmark_env [] = Inl IndexError"
  by code_simp

text \<open>
  C10 (amended): the function returns a list exactly when the benchmark run-up is
  obtained (its 30-day series is fetched and is not empty); otherwise it raises before it
  looks at a candidate. Every element of a returned list comes from a candidate of its own
  in the input (the pairs of ticker and earnings date of the output form a sub-multiset of
  the pairs of symbol and report date of the input), so no ticker outside the input is
  returned and the output is not longer than the input; and when the benchmark run-up is
  obtained, an empty candidate list gives an empty output.
\<close>

theorem ranked_from_candidates:
  "((\<exists>out. screen_stocks_for_opportunities rt e tickers = Inr out) \<longleftrightarrow>
    (\<exists>spy. benchmark_runup e = Inr spy)) \<and>
   (\<forall>out. screen_stocks_for_opportunities rt e tickers = Inr out \<longrightarrow>
      mset (map (\<lambda>r. (ticker r, earnings_date r)) out) \<subseteq>#
        mset (map (\<lambda>c. (symbol c, reportDate c)) tickers) \<and>
      (\<forall>r\<in>set out. \<exists>c\<in>set tickers. ticker r = symbol c \<and> earnings_date r = reportDate c) \<and>
      length out \<le> length tickers) \<and>
   (\<forall>spy. benchmark_runup e = Inr spy \<longrightarrow>
      screen_stocks_for_opportunities rt e [] = Inr [])"
proof (intro conjI allI impI)
  show "(\<exists>out. screen_stocks_for_opportunities rt e tickers = Inr out) \<longleftrightarrow>
        (\<exists>spy. benchmark_runup e = Inr spy)"
    by (rule screen_stocks_returns_iff)
next
  fix out assume a: "screen_stocks_for_opportunities rt e tickers = Inr out"
  from screen_stocks_InrD [OF a] obtain spy where
    o: "out = sorted_by_score_desc rt (List.map_filter (appended_result rt e spy) tickers)"
    by auto
  let ?acc = "List.map_filter (appended_result rt e spy) tickers"
  have m: "mset out = mset ?acc" unfolding o by (rule mset_sorted_by_score_desc)
  have "mset (map (\<lambda>r. (ticker r, earnings_date r)) ?acc) \<subseteq>#
           mset (map (\<lambda>c. (symbol c, reportDate c)) tickers)"
    by (rule map_filter_keys_subset) (simp add: appended_result_keys)
  moreover have "mset (map (\<lambda>r. (ticker r, earnings_date r)) out) =
                 mset (map (\<lambda>r. (ticker r, earnings_date r)) ?acc)"
    using m by (metis mset_map)
  ultimately show 1: "mset (map (\<lambda>r. (ticker r, earnings_date r)) out) \<subseteq>#
           mset (map (\<lambda>c. (symbol c, reportDate c)) tickers)" by simp
  show "\<forall>r\<in>set out. \<exists>c\<in>set tickers. ticker r = symbol c \<and> earnings_date r = reportDate c"
  proof
    fix r assume "r \<in> set out"
    then have "r \<in> set ?acc" unfolding o by (simp only: set_sorted_by_score_desc)
    then obtain c where "c \<in> set tickers" "appended_result rt e spy c = Some r"
      by (auto simp: set_map_filter)
    with appended_result_keys show
      "\<exists>c\<in>set tickers. ticker r = symbol c \<and> earnings_date r = reportDate c" by blast
  qed
  from 1 have "size (mset (map (\<lambda>r. (ticker r, earnings_date r)) out)) \<le>
               size (mset (map (\<lambda>c. (symbol c, reportDate c)) tickers))"
    by (rule size_mset_mono)
  then show "length out \<le> length tickers" by simp
next
  fix spy assume "benchmark_runup e = Inr spy"
  then show "screen_stocks_for_opportunities rt e [] = Inr []"
    by (simp add: screen_stocks_for_opportunities_def sorted_by_score_desc_def)
qed

theorem ranked_from_candidates_witness:
  "screen_stocks_for_opportunities sample_runtime sample_env
     [cand ''AAA'', cand ''ERR'', cand ''TOP'', cand ''BBB'', cand ''CCC''] =
   Inr [sample_result ''TOP'' (Fin (79 / 10)) (Fin 5) (Fin 13) (Fin 50),
        sample_result ''AAA'' (Fin (59 / 10)) (Fin 5) (Fin 3) (Fin 50),
        sample_result ''CCC'' (Fin (59 / 10)) (Fin 5) (Fin 3) (Fin 50)] \<and>
   mset (map (\<lambda>r. (ticker r, earnings_date r))
     [sample_result ''TOP'' (Fin (79 / 10)) (Fin 5) (Fin 13) (Fin 50),
      sample_result ''AAA'' (Fin (59 / 10)) (Fin 5) (Fin 3) (Fin 50),
      sample_result ''CCC'' (Fin (59 / 10)) (Fin 5) (Fin 3) (Fin 50)]) \<subseteq>#
   mset (map (\<lambda>c. (symbol c, reportDate c))
     [cand ''AAA'', cand ''ERR'', cand ''TOP'', cand ''BBB'', cand ''CCC'']) \<and>
   benchmark_runup sample_env = Inr (Fin 1) \<and>
   screen_stocks_for_opportunities sample_runtime sample_env [] = Inr []"
proof -
  let ?out = "[sample_result ''TOP'' (Fin (79 / 10)) (Fin 5) (Fin 13) (Fin 50),
      sample_result ''AAA'' (Fin (59 / 10)) (Fin 5) (Fin 3) (Fin 50),
      sample_result ''CCC'' (Fin (59 / 10)) (Fin 5) (Fin 3) (Fin 50)]"
  let ?in = "[cand ''AAA'', cand ''ERR'', cand ''TOP'', cand ''BBB'', cand ''CCC'']"
  note th = ranked_from_candidates [of sample_runtime sample_env ?in]
  from th have "\<forall>out. screen_stocks_for_opportunities sample_runtime sample_env ?in = Inr out \<longrightarrow>
      mset (map (\<lambda>r. (ticker r, earnings_date r)) out) \<subseteq>#
        mset (map (\<lambda>c. (symbol c, reportDate c)) ?in) \<and>
      (\<forall>r\<in>set out. \<exists>c\<in>set ?in. ticker r = symbol c \<and> earnings_date r = reportDate c) \<and>
      length out \<le> length ?in"
    by blast
  with sample_ranking have 1: "mset (map (\<lambda>r. (ticker r, earnings_date r)) ?out) \<subseteq>#
        mset (map (\<lambda>c. (symbol c, reportDate c)) ?in)"
    by blast
  from th have "\<forall>spy. benchmark_runup sample_env = Inr spy \<longrightarrow>
      screen_stocks_for_opportunities sample_runtime sample_env [] = Inr []"
    by blast
  with sample_benchmark have 2: "screen_stocks_for_opportunities sample_runtime sample_env [] = Inr []"
    by blast
  from sample_ranking 1 sample_benchmark 2 show ?thesis by (intro conjI)
qed

end
